theory Spec2Isabelle
  imports Main "HOL-Library.Sublist"
begin

section \<open>The Maven SDM of \<^verbatim>\<open>lib/sdm/maven.ts\<close>\<close>

text \<open>
  The file configures a software delivery machine: a generator registration, a build
  goal, a goal that starts the built application with \<^verbatim>\<open>mvn spring-boot:run\<close>, a
  table of three push rules, and a helper that reads the Docker host from the
  environment. Strings are \<open>char list\<close>; a JavaScript \<^verbatim>\<open>Error\<close> is the value
  carrying its \<^verbatim>\<open>message\<close>; a rejected promise or a \<^verbatim>\<open>throw\<close> is the \<open>Inl\<close> side of
  a sum.
\<close>

subsection \<open>Values\<close>

datatype Error = Error (message: string)

datatype SdmGoalState = success | failure

text \<open>
  \<^verbatim>\<open>ExecuteGoalResult\<close>: the object literal a goal action returns. Every property is
  optional; a property that the literal does not set is \<open>None\<close>.
\<close>

record ExecuteGoalResult =
  state :: "SdmGoalState option"
  code :: "int option"
  externalUrls :: "(string \<times> string) list option"

record SdmGoalEvent =
  sha :: string

text \<open>
  The template literal \<^verbatim>\<open>${port}\<close> renders a number; for the non-negative integers
  that are port numbers this is the decimal numeral without leading zeros.
\<close>

definition digitChar :: "nat \<Rightarrow> char" where
  "digitChar d = char_of (48 + d)"

fun numberToString :: "nat \<Rightarrow> string" where
  "numberToString n =
     (if n < 10 then [digitChar n]
      else numberToString (n div 10) @ [digitChar (n mod 10)])"

declare numberToString.simps [simp del]

text \<open>Reading a decimal numeral back, to state that the rendering loses nothing.\<close>

definition digitValue :: "char \<Rightarrow> nat" where
  "digitValue c = of_char c - 48"

definition decimalValue :: "string \<Rightarrow> nat" where
  "decimalValue s = foldl (\<lambda>a c. 10 * a + digitValue c) 0 s"

subsection \<open>The run goal: \<^verbatim>\<open>mavenSpringBootRun\<close>\<close>

text \<open>
  What the action calls and does not define: \<^verbatim>\<open>scanFreePort\<close> and \<^verbatim>\<open>execPromise\<close>
  (promises that resolve or reject), \<^verbatim>\<open>gi.addressChannels\<close> (a promise as well),
  and the pure message builders \<^verbatim>\<open>slackSuccessMessage\<close>, \<^verbatim>\<open>codeLine\<close> and \<^verbatim>\<open>url\<close>.
  They are the fields of \<open>collaborators\<close>; \<open>'m\<close> is the type of a rendered message.
\<close>

record 'm collaborators =
  scanFreePort :: "nat \<Rightarrow> nat \<Rightarrow> Error + nat"
  execPromise :: "string \<Rightarrow> string list \<Rightarrow> Error + string"
  addressChannels :: "'m \<Rightarrow> Error + unit"
  slackSuccessMessage :: "string \<Rightarrow> string \<Rightarrow> 'm"
  codeLine :: "string \<Rightarrow> string"
  url :: "string \<Rightarrow> string"

text \<open>
  What the action leaves behind: the calls of \<^verbatim>\<open>progressLog.write\<close> (format string and
  arguments) and the messages that \<^verbatim>\<open>addressChannels\<close> accepted, both in order.
\<close>

record 'm effects =
  progressLog :: "(string \<times> string list) list"
  channel :: "'m list"

text \<open>The \<^verbatim>\<open>catch (e)\<close> block.\<close>

definition runCatch :: "Error \<Rightarrow> 'm effects \<Rightarrow> (Error + ExecuteGoalResult) \<times> 'm effects" where
  "runCatch e w =
     (Inr \<lparr>state = None, code = Some 1, externalUrls = None\<rparr>,
      w\<lparr>progressLog := progressLog w @ [(''Container run command failed: %s'', [message e])]\<rparr>)"

text \<open>
  The action. \<^verbatim>\<open>scanFreePort\<close> is awaited before the \<^verbatim>\<open>try\<close>, so its rejection is
  the action's rejection; \<^verbatim>\<open>execPromise\<close> and \<^verbatim>\<open>addressChannels\<close> are awaited inside
  it, so a rejection of either one runs the \<^verbatim>\<open>catch\<close> block.
\<close>

definition mavenSpringBootRun ::
  "'m collaborators \<Rightarrow> SdmGoalEvent \<Rightarrow> 'm effects \<Rightarrow> (Error + ExecuteGoalResult) \<times> 'm effects" where
  "mavenSpringBootRun c goalEvent w =
     (case scanFreePort c 8000 8100 of
        Inl e \<Rightarrow> (Inl e, w)
      | Inr port \<Rightarrow>
          let appUrl = ''http://localhost:'' @ numberToString port in
          (case execPromise c ''mvn''
                  [''spring-boot:run'',
                   ''-Dspring-boot.run.arguments=--server.port='' @ numberToString port] of
             Inl e \<Rightarrow> runCatch e w
           | Inr result \<Rightarrow>
               let msg = slackSuccessMessage c ''Maven Spring Boot Run''
                           (''Successfully started '' @ codeLine c (take 7 (sha goalEvent))
                              @ '' at '' @ url c appUrl) in
               (case addressChannels c msg of
                  Inl e \<Rightarrow> runCatch e w
                | Inr _ \<Rightarrow>
                    (Inr \<lparr>state = Some success, code = None,
                          externalUrls = Some [(''http'', appUrl)]\<rparr>,
                     w\<lparr>channel := channel w @ [msg]\<rparr>))))"

subsection \<open>\<^verbatim>\<open>readDockerHost\<close>\<close>

text \<open>
  \<^verbatim>\<open>process.env\<close> is a map from variable names to values. \<^verbatim>\<open>!dockerhost\<close> holds for
  a variable that is not set and for the empty string. The declared return type
  \<^verbatim>\<open>string | undefined\<close> is \<open>string option\<close>. The platform's \<^verbatim>\<open>URL\<close> constructor,
  which throws on a string that is no URL, is the first argument.
\<close>

record URL =
  protocol :: string
  hostname :: string

definition readDockerHost ::
  "(string \<Rightarrow> Error + URL) \<Rightarrow> (string \<rightharpoonup> string) \<Rightarrow> Error + string option" where
  "readDockerHost newURL env =
     (case env ''DOCKER_HOST'' of
        None \<Rightarrow> Inl (Error ''DOCKER_HOST environment variable not set'')
      | Some dockerhost \<Rightarrow>
          if dockerhost = [] then Inl (Error ''DOCKER_HOST environment variable not set'')
          else (case newURL dockerhost of
                  Inl e \<Rightarrow> Inl e
                | Inr u \<Rightarrow> Inr (Some (hostname u))))"

text \<open>
  Modelled from the spec: the \<^verbatim>\<open>URL\<close> constructor is the platform's and not part of
  the repository; the helper must "parse the value as a URL, extracting only the host
  component", and a malformed value is an error. The model reads the generic form
  \<^verbatim>\<open>scheme://[userinfo@]host[:port][/path][?query][#fragment]\<close>: a scheme is a letter
  followed by letters, digits, \<^verbatim>\<open>+\<close>, \<^verbatim>\<open>-\<close> or \<^verbatim>\<open>.\<close>; a port is a decimal numeral up
  to 65535; a string with a scheme and no \<^verbatim>\<open>//\<close> has the empty host. Hosts are taken
  as written (no case folding, no bracketed IPv6 literals).
\<close>

definition isAlpha :: "char \<Rightarrow> bool" where
  "isAlpha c = (let n = (of_char c :: nat) in (65 \<le> n \<and> n \<le> 90) \<or> (97 \<le> n \<and> n \<le> 122))"

definition isDigit :: "char \<Rightarrow> bool" where
  "isDigit c = (let n = (of_char c :: nat) in 48 \<le> n \<and> n \<le> 57)"

definition isSchemeChar :: "char \<Rightarrow> bool" where
  "isSchemeChar c =
     (isAlpha c \<or> isDigit c \<or> c = CHR ''+'' \<or> c = CHR ''-'' \<or> c = CHR ''.'')"

definition validScheme :: "string \<Rightarrow> bool" where
  "validScheme s = (case s of [] \<Rightarrow> False | c # cs \<Rightarrow> isAlpha c \<and> list_all isSchemeChar cs)"

definition validPort :: "string \<Rightarrow> bool" where
  "validPort p = (list_all isDigit p \<and> decimalValue p \<le> 65535)"

definition URL_new :: "string \<Rightarrow> Error + URL" where
  "URL_new input =
     (let scheme = takeWhile (\<lambda>c. c \<noteq> CHR '':'') input;
          rest = dropWhile (\<lambda>c. c \<noteq> CHR '':'') input
      in if rest = [] then Inl (Error ''Invalid URL'')
         else if validScheme scheme then
           (let after = tl rest in
            if take 2 after = ''//'' then
              (let authority = takeWhile
                     (\<lambda>c. c \<noteq> CHR ''/'' \<and> c \<noteq> CHR ''?'' \<and> c \<noteq> CHR ''#'') (drop 2 after);
                   hostport = rev (takeWhile (\<lambda>c. c \<noteq> CHR ''@'') (rev authority));
                   host = takeWhile (\<lambda>c. c \<noteq> CHR '':'') hostport;
                   portpart = dropWhile (\<lambda>c. c \<noteq> CHR '':'') hostport
               in if portpart = [] then Inr \<lparr>protocol = scheme @ '':'', hostname = host\<rparr>
                  else if host \<noteq> [] \<and> validPort (tl portpart)
                       then Inr \<lparr>protocol = scheme @ '':'', hostname = host\<rparr>
                       else Inl (Error ''Invalid URL''))
            else Inr \<lparr>protocol = scheme @ '':'', hostname = []\<rparr>)
         else Inl (Error ''Invalid URL''))"

subsection \<open>Push tests\<close>

text \<open>
  Modelled from the spec: \<^verbatim>\<open>hasFile\<close>, \<^verbatim>\<open>hasFileWithExtension\<close>, \<^verbatim>\<open>and\<close>, \<^verbatim>\<open>or\<close> and
  \<^verbatim>\<open>not\<close> are imported from the SDM library and not defined in the repository. A
  predicate is a tagged expression tree over the snapshot of a push, the list of its
  file names: \<^verbatim>\<open>hasFile(name)\<close> holds iff a file with exactly that name is in the
  snapshot, \<^verbatim>\<open>hasFileWithExtension(ext)\<close> iff some file's name ends with the extension.
\<close>

datatype predicate =
  HasFile string
| HasFileWithExtension string
| And "predicate list"
| Or "predicate list"
| Not predicate

fun evaluate :: "predicate \<Rightarrow> string list \<Rightarrow> bool" where
  "evaluate (HasFile name) snapshot = (name \<in> set snapshot)"
| "evaluate (HasFileWithExtension ext) snapshot = list_ex (suffix ext) snapshot"
| "evaluate (And ps) snapshot = list_all (\<lambda>p. evaluate p snapshot) ps"
| "evaluate (Or ps) snapshot = list_ex (\<lambda>p. evaluate p snapshot) ps"
| "evaluate (Not p) snapshot = (\<not> evaluate p snapshot)"

subsection \<open>Goals and the push rules of \<^verbatim>\<open>configuration\<close>\<close>

text \<open>
  A goal has a display name, an action and possibly a project listener that runs before
  the action. The scheduler looks at the terminal state of an action's result only, so
  an action is a function from the world \<open>'w\<close> it runs in to that state and the world
  it leaves.
\<close>

record 'w Goal =
  displayName :: string
  action :: "'w \<Rightarrow> SdmGoalState \<times> 'w"
  projectListener :: "('w \<Rightarrow> 'w) option"

record 'w PushRule =
  name :: string
  test :: "predicate option"
  goals :: "'w Goal list"
  lock :: bool
  dependsOn :: "string option"

record PushEvent =
  commit :: string
  files :: "string list"

text \<open>
  \<^verbatim>\<open>new Build({ displayName: "maven build" }).with({ ..., builder: mavenBuilder() })
  .withProjectListener(MvnVersion)\<close>: the builder and the listener are imported.
\<close>

definition buildGoal :: "('w \<Rightarrow> SdmGoalState \<times> 'w) \<Rightarrow> ('w \<Rightarrow> 'w) \<Rightarrow> 'w Goal" where
  "buildGoal mavenBuilder MvnVersion =
     \<lparr>displayName = ''maven build'', action = mavenBuilder,
      projectListener = Some MvnVersion\<rparr>"

text \<open>
  \<^verbatim>\<open>goal({ displayName: "maven spring boot run" }, async gi => ...)\<close>. The argument
  stands for the action \<^verbatim>\<open>mavenSpringBootRun\<close> as the scheduler sees it: the terminal
  state it ends in and the world it leaves.
\<close>

definition runGoal :: "('w \<Rightarrow> SdmGoalState \<times> 'w) \<Rightarrow> 'w Goal" where
  "runGoal runAction =
     \<lparr>displayName = ''maven spring boot run'', action = runAction, projectListener = None\<rparr>"

text \<open>
  The three rules, in the order of the object literal. \<^verbatim>\<open>DoNotSetAnyGoals.andLock()\<close>
  is the empty goal set with the lock; a rule without \<^verbatim>\<open>test\<close> has \<open>None\<close>.
\<close>

definition no_goals :: "'w PushRule" where
  "no_goals =
     \<lparr>name = ''no_goals'', test = Some (Not (HasFile ''pom.xml'')), goals = [],
      lock = True, dependsOn = None\<rparr>"

definition build :: "('w \<Rightarrow> SdmGoalState \<times> 'w) \<Rightarrow> ('w \<Rightarrow> 'w) \<Rightarrow> 'w PushRule" where
  "build mavenBuilder MvnVersion =
     \<lparr>name = ''build'', test = None, goals = [buildGoal mavenBuilder MvnVersion],
      lock = False, dependsOn = None\<rparr>"

definition run :: "('w \<Rightarrow> SdmGoalState \<times> 'w) \<Rightarrow> 'w PushRule" where
  "run runAction =
     \<lparr>name = ''run'', test = None, goals = [runGoal runAction],
      lock = False, dependsOn = Some ''build''\<rparr>"

definition configuration ::
  "('w \<Rightarrow> SdmGoalState \<times> 'w) \<Rightarrow> ('w \<Rightarrow> 'w) \<Rightarrow> ('w \<Rightarrow> SdmGoalState \<times> 'w) \<Rightarrow> 'w PushRule list" where
  "configuration mavenBuilder MvnVersion runAction =
     [no_goals, build mavenBuilder MvnVersion, run runAction]"

subsection \<open>Resolving the rules of a push\<close>

text \<open>
  Modelled from the spec: \<^verbatim>\<open>configure\<close>, which turns the rule table into the goals of
  a push, is imported from the SDM library. The rules are tested in declaration order
  and those whose test holds are kept (a rule without a test holds for every push); a
  kept rule that carries the lock ends the walk, no further rule is considered.
\<close>

definition matches :: "'w PushRule \<Rightarrow> string list \<Rightarrow> bool" where
  "matches r snapshot = (case test r of None \<Rightarrow> True | Some p \<Rightarrow> evaluate p snapshot)"

fun matched :: "'w PushRule list \<Rightarrow> string list \<Rightarrow> 'w PushRule list" where
  "matched [] snapshot = []"
| "matched (r # rs) snapshot =
     (if matches r snapshot then (if lock r then [r] else r # matched rs snapshot)
      else matched rs snapshot)"

text \<open>
  The matched rules are put in dependency order: again and again the first rule, in
  declaration order, whose dependency has already been placed (or that has none) is
  placed next. A rule whose dependency is never placed is dropped.
\<close>

definition ready :: "string list \<Rightarrow> 'w PushRule \<Rightarrow> bool" where
  "ready placed r = (case dependsOn r of None \<Rightarrow> True | Some d \<Rightarrow> d \<in> set placed)"

fun pick :: "string list \<Rightarrow> 'w PushRule list \<Rightarrow> ('w PushRule \<times> 'w PushRule list) option" where
  "pick placed [] = None"
| "pick placed (r # rs) =
     (if ready placed r then Some (r, rs)
      else (case pick placed rs of None \<Rightarrow> None | Some (r', rs') \<Rightarrow> Some (r', r # rs')))"

function ordered :: "string list \<Rightarrow> 'w PushRule list \<Rightarrow> 'w PushRule list" where
  "ordered placed rs =
     (case pick placed rs of
        None \<Rightarrow> []
      | Some (r, rest) \<Rightarrow> r # ordered (name r # placed) rest)"
  by pat_completeness auto
termination
proof (relation "measure (\<lambda>(placed, rs). length rs)")
  show "wf (measure (\<lambda>(placed, rs). length rs))"
    by simp
next
  fix placed rs x2 r rest
  assume "pick placed rs = Some x2" and "(r, rest) = x2"
  then have "pick placed rs = Some (r, rest)"
    by simp
  then have "length rest < length rs"
    by (induction rs arbitrary: r rest) (auto split: if_splits option.splits)
  then show "((name r # placed, rest), (placed, rs)) \<in> measure (\<lambda>(placed, rs). length rs)"
    by simp
qed

declare ordered.simps [simp del]

definition resolve :: "'w PushRule list \<Rightarrow> PushEvent \<Rightarrow> 'w PushRule list" where
  "resolve rules push = ordered [] (matched rules (files push))"

subsection \<open>Executing the resolved rules\<close>

text \<open>
  Modelled from the spec: the executor is the SDM library's. The goals of a goal set
  run one after the other, each goal's listener before its action; a failed goal halts
  the remainder of its set. A rule's goal set begins only when the rule it depends on
  has reached success; otherwise the rule is skipped, neither attempted nor marked.
  The record keeps what a test of the executor observes: the invocations in order, the
  rules whose goal set was begun, and the result of each such goal set.
\<close>

datatype event = ListenerInvoked string | ActionInvoked string

record 'w execution =
  world :: 'w
  trace :: "event list"
  scheduled :: "string list"
  results :: "(string \<times> SdmGoalState) list"

definition executeGoal :: "'w Goal \<Rightarrow> 'w \<Rightarrow> event list \<Rightarrow> SdmGoalState \<times> 'w \<times> event list" where
  "executeGoal g w t =
     (case projectListener g of
        None \<Rightarrow>
          (case action g w of (s, w') \<Rightarrow> (s, w', t @ [ActionInvoked (displayName g)]))
      | Some listener \<Rightarrow>
          (case action g (listener w) of
             (s, w') \<Rightarrow>
               (s, w', t @ [ListenerInvoked (displayName g), ActionInvoked (displayName g)])))"

fun executeGoalSet :: "'w Goal list \<Rightarrow> 'w \<Rightarrow> event list \<Rightarrow> SdmGoalState \<times> 'w \<times> event list" where
  "executeGoalSet [] w t = (success, w, t)"
| "executeGoalSet (g # gs) w t =
     (case executeGoal g w t of
        (failure, w', t') \<Rightarrow> (failure, w', t')
      | (success, w', t') \<Rightarrow> executeGoalSet gs w' t')"

definition dependencyMet :: "'w PushRule \<Rightarrow> (string \<times> SdmGoalState) list \<Rightarrow> bool" where
  "dependencyMet r res =
     (case dependsOn r of None \<Rightarrow> True | Some d \<Rightarrow> map_of res d = Some success)"

fun execute :: "'w PushRule list \<Rightarrow> 'w execution \<Rightarrow> 'w execution" where
  "execute [] x = x"
| "execute (r # rs) x =
     (if dependencyMet r (results x) then
        (case executeGoalSet (goals r) (world x) (trace x) of
           (s, w', t') \<Rightarrow>
             execute rs
               (x\<lparr>world := w', trace := t', scheduled := scheduled x @ [name r],
                  results := results x @ [(name r, s)]\<rparr>))
      else execute rs x)"

definition start :: "'w \<Rightarrow> 'w execution" where
  "start w = \<lparr>world = w, trace = [], scheduled = [], results = []\<rparr>"

subsection \<open>The port allocator\<close>

text \<open>
  Modelled from the spec: \<^verbatim>\<open>scanFreePort\<close> is imported from the automation client.
  The state is the set of ports that are bound. A bind of a bound port fails. The scan
  tries the candidates from low to high, inclusively, returns the first whose bind
  succeeds and releases that bind at once; it fails with \<open>PortUnavailable\<close> when no
  candidate can be bound.
\<close>

datatype allocError = PortUnavailable

definition bind_port :: "nat \<Rightarrow> nat set \<Rightarrow> nat set option" where
  "bind_port p bound = (if p \<in> bound then None else Some (insert p bound))"

definition release :: "nat \<Rightarrow> nat set \<Rightarrow> nat set" where
  "release p bound = bound - {p}"

function allocate :: "nat \<Rightarrow> nat \<Rightarrow> nat set \<Rightarrow> (allocError + nat) \<times> nat set" where
  "allocate low high bound =
     (if high < low then (Inl PortUnavailable, bound)
      else (case bind_port low bound of
              Some bound' \<Rightarrow> (Inr low, release low bound')
            | None \<Rightarrow> allocate (Suc low) high bound))"
  by pat_completeness auto
termination
  by (relation "measure (\<lambda>(low, high, bound). Suc high - low)") auto

declare allocate.simps [simp del]

subsection \<open>Sample inputs\<close>

text \<open>
  Concrete collaborators for the run goal: a port scan that answers 8042, a
  \<^verbatim>\<open>mvn\<close> that exits with code 1 or with code 0, a channel that accepts or rejects
  the message, and message builders that render plain text.
\<close>

definition scanFirst :: "nat \<Rightarrow> nat \<Rightarrow> Error + nat" where
  "scanFirst low high = Inr (low + 42)"

definition execExits1 :: "string \<Rightarrow> string list \<Rightarrow> Error + string" where
  "execExits1 cmd args = Inl (Error ''Child process exited with code 1'')"

definition execExits0 :: "string \<Rightarrow> string list \<Rightarrow> Error + string" where
  "execExits0 cmd args = Inr ''Started Application''"

definition channelOpen :: "string \<Rightarrow> Error + unit" where
  "channelOpen m = Inr ()"

definition channelDown :: "string \<Rightarrow> Error + unit" where
  "channelDown m = Inl (Error ''socket hang up'')"

definition plainMessage :: "string \<Rightarrow> string \<Rightarrow> string" where
  "plainMessage title body = title @ '': '' @ body"

definition backticks :: "string \<Rightarrow> string" where
  "backticks s = ''`'' @ s @ ''`''"

definition angles :: "string \<Rightarrow> string" where
  "angles s = ''<'' @ s @ ''>''"

definition processFails :: "string collaborators" where
  "processFails =
     \<lparr>scanFreePort = scanFirst, execPromise = execExits1, addressChannels = channelOpen,
      slackSuccessMessage = plainMessage, codeLine = backticks, url = angles\<rparr>"

definition processStarts :: "string collaborators" where
  "processStarts =
     \<lparr>scanFreePort = scanFirst, execPromise = execExits0, addressChannels = channelOpen,
      slackSuccessMessage = plainMessage, codeLine = backticks, url = angles\<rparr>"

definition notificationFails :: "string collaborators" where
  "notificationFails =
     \<lparr>scanFreePort = scanFirst, execPromise = execExits0, addressChannels = channelDown,
      slackSuccessMessage = plainMessage, codeLine = backticks, url = angles\<rparr>"

definition someGoalEvent :: SdmGoalEvent where
  "someGoalEvent = \<lparr>sha = ''9f2c1ab37d5e''\<rparr>"

definition quiet :: "string effects" where
  "quiet = \<lparr>progressLog = [], channel = []\<rparr>"

text \<open>
  Two pushes, one without and one with \<^verbatim>\<open>pom.xml\<close> at the root, and goal actions
  over a world that is the list of the commands run so far.
\<close>

definition docsPush :: PushEvent where
  "docsPush = \<lparr>commit = ''9f2c1ab37d5e'', files = [''README.md'', ''module/pom.xml'']\<rparr>"

definition mavenPush :: PushEvent where
  "mavenPush = \<lparr>commit = ''9f2c1ab37d5e'', files = [''README.md'', ''pom.xml'']\<rparr>"

definition packageOk :: "string list \<Rightarrow> SdmGoalState \<times> string list" where
  "packageOk w = (success, w @ [''mvn package''])"

definition packageBroken :: "string list \<Rightarrow> SdmGoalState \<times> string list" where
  "packageBroken w = (failure, w @ [''mvn package''])"

definition setVersion :: "string list \<Rightarrow> string list" where
  "setVersion w = w @ [''mvn versions:set'']"

definition bootRun :: "string list \<Rightarrow> SdmGoalState \<times> string list" where
  "bootRun w = (success, w @ [''mvn spring-boot:run''])"

section \<open>Properties\<close>

subsection \<open>Rendering a port\<close>

lemma numberToString_8042: "numberToString 8042 = ''8042''"
  by (simp add: numberToString.simps digitChar_def char_of_def bit_0)

lemma decimalValue_numberToString: "decimalValue (numberToString n) = n"
proof (induction n rule: numberToString.induct)
  case (1 n)
  show ?case
  proof (cases "n < 10")
    case True
    then show ?thesis
      by (subst numberToString.simps) (simp add: decimalValue_def digitValue_def digitChar_def)
  next
    case False
    with 1 have IH: "decimalValue (numberToString (n div 10)) = n div 10"
      by simp
    have "n mod 10 < 10"
      by simp
    then have d: "digitValue (digitChar (n mod 10)) = n mod 10"
      by (simp add: digitValue_def digitChar_def)
    from False have "numberToString n = numberToString (n div 10) @ [digitChar (n mod 10)]"
      by (subst numberToString.simps) simp
    then have "decimalValue (numberToString n) =
        10 * decimalValue (numberToString (n div 10)) + digitValue (digitChar (n mod 10))"
      by (simp add: decimalValue_def)
    with IH d show ?thesis
      by simp
  qed
qed

subsection \<open>The run goal\<close>

text \<open>
  C1, as stated, asks for a result with the state \<open>failure\<close> and the code 1. The
  \<^verbatim>\<open>catch\<close> block returns the literal \<^verbatim>\<open>{ code: 1 }\<close>: when \<^verbatim>\<open>mvn\<close> exits with code 1,
  the result of the action has the code 1 and no state at all.
\<close>

theorem mavenSpringBootRun_failure_state_counterexample:
  "scanFreePort processFails 8000 8100 = Inr 8042 \<and>
   execPromise processFails ''mvn''
     [''spring-boot:run'', ''-Dspring-boot.run.arguments=--server.port=8042''] =
     Inl (Error ''Child process exited with code 1'') \<and>
   fst (mavenSpringBootRun processFails someGoalEvent quiet) =
     Inr \<lparr>state = None, code = Some 1, externalUrls = None\<rparr> \<and>
   state (projr (fst (mavenSpringBootRun processFails someGoalEvent quiet))) \<noteq> Some failure"
  by (simp add: mavenSpringBootRun_def Let_def processFails_def scanFirst_def execExits1_def
      runCatch_def)

text \<open>
  C1, amended: whenever the port scan has answered and \<^verbatim>\<open>execPromise\<close> rejects (a
  nonzero exit or a failure to spawn), the action returns normally, its result is
  \<^verbatim>\<open>{ code: 1 }\<close> with no state set, and the progress log has received one more write,
  the format \<^verbatim>\<open>Container run command failed: %s\<close> with the message of the error.
\<close>

theorem mavenSpringBootRun_process_failure:
  assumes "scanFreePort c 8000 8100 = Inr port"
    and "execPromise c ''mvn''
           [''spring-boot:run'',
            ''-Dspring-boot.run.arguments=--server.port='' @ numberToString port] = Inl e"
  shows "mavenSpringBootRun c goalEvent w =
           (Inr \<lparr>state = None, code = Some 1, externalUrls = None\<rparr>,
            w\<lparr>progressLog := progressLog w @
                 [(''Container run command failed: %s'', [message e])]\<rparr>)"
  using assms by (simp add: mavenSpringBootRun_def Let_def runCatch_def)

theorem mavenSpringBootRun_process_failure_witness:
  "scanFreePort processFails 8000 8100 = Inr 8042 \<and>
   execPromise processFails ''mvn''
     [''spring-boot:run'', ''-Dspring-boot.run.arguments=--server.port='' @ numberToString 8042] =
     Inl (Error ''Child process exited with code 1'') \<and>
   mavenSpringBootRun processFails someGoalEvent quiet =
     (Inr \<lparr>state = None, code = Some 1, externalUrls = None\<rparr>,
      \<lparr>progressLog =
         [(''Container run command failed: %s'', [''Child process exited with code 1''])],
       channel = []\<rparr>)"
proof -
  have s: "scanFreePort processFails 8000 8100 = Inr 8042"
    by (simp add: processFails_def scanFirst_def)
  have x: "execPromise processFails ''mvn''
     [''spring-boot:run'', ''-Dspring-boot.run.arguments=--server.port='' @ numberToString 8042] =
     Inl (Error ''Child process exited with code 1'')"
    by (simp add: processFails_def execExits1_def)
  show ?thesis
    using s x mavenSpringBootRun_process_failure [OF s x, of someGoalEvent quiet]
    by (simp add: quiet_def)
qed

text \<open>
  C4, as stated, promises success whenever the process exits with code 0. The
  notification is awaited inside the same \<^verbatim>\<open>try\<close>: when \<^verbatim>\<open>mvn\<close> exits with code 0
  and \<^verbatim>\<open>addressChannels\<close> rejects, the \<^verbatim>\<open>catch\<close> block runs and the result is
  \<^verbatim>\<open>{ code: 1 }\<close>, without a state and without external URLs.
\<close>

theorem mavenSpringBootRun_notification_counterexample:
  "scanFreePort notificationFails 8000 8100 = Inr 8042 \<and>
   execPromise notificationFails ''mvn''
     [''spring-boot:run'', ''-Dspring-boot.run.arguments=--server.port=8042''] =
     Inr ''Started Application'' \<and>
   fst (mavenSpringBootRun notificationFails someGoalEvent quiet) =
     Inr \<lparr>state = None, code = Some 1, externalUrls = None\<rparr> \<and>
   state (projr (fst (mavenSpringBootRun notificationFails someGoalEvent quiet))) \<noteq> Some success"
  by (simp add: mavenSpringBootRun_def Let_def notificationFails_def scanFirst_def
      execExits0_def channelDown_def runCatch_def)

text \<open>
  C4, amended: whenever the port scan has answered \<open>port\<close>, the process exits with code
  0 and the success notification is accepted, the action returns a result with the
  state \<open>success\<close> whose external URLs are exactly one entry, labelled \<^verbatim>\<open>http\<close>, with the
  URL \<^verbatim>\<open>http://localhost:\<close> followed by the decimal numeral of \<open>port\<close>; that numeral
  reads back as \<open>port\<close>.
\<close>

theorem mavenSpringBootRun_exit_zero:
  assumes "scanFreePort c 8000 8100 = Inr port"
    and "execPromise c ''mvn''
           [''spring-boot:run'',
            ''-Dspring-boot.run.arguments=--server.port='' @ numberToString port] = Inr out"
    and "addressChannels c
           (slackSuccessMessage c ''Maven Spring Boot Run''
              (''Successfully started '' @ codeLine c (take 7 (sha goalEvent)) @ '' at '' @
               url c (''http://localhost:'' @ numberToString port))) = Inr u"
  shows "fst (mavenSpringBootRun c goalEvent w) =
           Inr \<lparr>state = Some success, code = None,
                externalUrls = Some [(''http'', ''http://localhost:'' @ numberToString port)]\<rparr>
         \<and> decimalValue (numberToString port) = port"
  using assms by (simp add: mavenSpringBootRun_def Let_def decimalValue_numberToString)

theorem mavenSpringBootRun_exit_zero_witness:
  "scanFreePort processStarts 8000 8100 = Inr 8042 \<and>
   execPromise processStarts ''mvn''
     [''spring-boot:run'', ''-Dspring-boot.run.arguments=--server.port='' @ numberToString 8042]
     = Inr ''Started Application'' \<and>
   addressChannels processStarts
     (slackSuccessMessage processStarts ''Maven Spring Boot Run''
        (''Successfully started '' @ codeLine processStarts (take 7 (sha someGoalEvent)) @
         '' at '' @ url processStarts (''http://localhost:'' @ numberToString 8042))) = Inr () \<and>
   fst (mavenSpringBootRun processStarts someGoalEvent quiet) =
     Inr \<lparr>state = Some success, code = None,
          externalUrls = Some [(''http'', ''http://localhost:8042'')]\<rparr>"
proof -
  have s: "scanFreePort processStarts 8000 8100 = Inr 8042"
    by (simp add: processStarts_def scanFirst_def)
  have x: "execPromise processStarts ''mvn''
     [''spring-boot:run'', ''-Dspring-boot.run.arguments=--server.port='' @ numberToString 8042]
     = Inr ''Started Application''"
    by (simp add: processStarts_def execExits0_def)
  have a: "addressChannels processStarts
     (slackSuccessMessage processStarts ''Maven Spring Boot Run''
        (''Successfully started '' @ codeLine processStarts (take 7 (sha someGoalEvent)) @
         '' at '' @ url processStarts (''http://localhost:'' @ numberToString 8042))) = Inr ()"
    by (simp add: processStarts_def channelOpen_def)
  show ?thesis
    using s x a mavenSpringBootRun_exit_zero [OF s x a, of quiet]
    by (simp add: numberToString_8042)
qed

text \<open>
  C9: in every execution of the action that returns the state \<open>success\<close>, the channel
  has received exactly one more message, the success message whose text holds the code
  line of the first 7 characters of the commit identifier (\<^verbatim>\<open>sha.slice(0, 7)\<close>) and the
  link of the application URL, and that URL is the one of the single entry of the
  result's external URLs.
\<close>

theorem mavenSpringBootRun_success_message:
  assumes "mavenSpringBootRun c goalEvent w = (Inr r, w')"
    and "state r = Some success"
  shows "\<exists>appUrl. externalUrls r = Some [(''http'', appUrl)] \<and>
           channel w' = channel w @
             [slackSuccessMessage c ''Maven Spring Boot Run''
                (''Successfully started '' @ codeLine c (take 7 (sha goalEvent)) @ '' at '' @
                 url c appUrl)]"
  using assms
  by (auto simp: mavenSpringBootRun_def runCatch_def Let_def split: sum.splits)

theorem mavenSpringBootRun_success_message_witness:
  "mavenSpringBootRun processStarts someGoalEvent quiet =
     (Inr \<lparr>state = Some success, code = None,
           externalUrls = Some [(''http'', ''http://localhost:8042'')]\<rparr>,
      \<lparr>progressLog = [],
       channel =
         [''Maven Spring Boot Run: Successfully started `9f2c1ab` at <http://localhost:8042>'']\<rparr>)
   \<and> (\<exists>appUrl. Some [(''http'', ''http://localhost:8042'')] = Some [(''http'', appUrl)] \<and>
         [''Maven Spring Boot Run: Successfully started `9f2c1ab` at <http://localhost:8042>''] =
           channel quiet @
             [slackSuccessMessage processStarts ''Maven Spring Boot Run''
                (''Successfully started '' @ codeLine processStarts (take 7 (sha someGoalEvent))
                   @ '' at '' @ url processStarts appUrl)])"
proof -
  have run: "mavenSpringBootRun processStarts someGoalEvent quiet =
     (Inr \<lparr>state = Some success, code = None,
           externalUrls = Some [(''http'', ''http://localhost:8042'')]\<rparr>,
      \<lparr>progressLog = [],
       channel =
         [''Maven Spring Boot Run: Successfully started `9f2c1ab` at <http://localhost:8042>'']\<rparr>)"
    by (simp add: mavenSpringBootRun_def Let_def processStarts_def scanFirst_def execExits0_def
        channelOpen_def plainMessage_def backticks_def angles_def someGoalEvent_def quiet_def
        numberToString_8042)
  show ?thesis
    using run mavenSpringBootRun_success_message [OF run] by simp
qed

subsection \<open>The Docker host\<close>

lemma URL_new_tcp:
  "URL_new ''tcp://1.2.3.4:2376'' = Inr \<lparr>protocol = ''tcp:'', hostname = ''1.2.3.4''\<rparr>"
  by (simp add: URL_new_def validScheme_def validPort_def isAlpha_def isDigit_def
      isSchemeChar_def decimalValue_def digitValue_def)

text \<open>
  C5: with \<^verbatim>\<open>DOCKER_HOST\<close> not set, \<^verbatim>\<open>readDockerHost\<close> throws the error whose message
  is \<^verbatim>\<open>DOCKER_HOST environment variable not set\<close>, which begins with the name of the
  variable; with \<^verbatim>\<open>DOCKER_HOST\<close> set to \<^verbatim>\<open>tcp://1.2.3.4:2376\<close> it returns the host
  \<^verbatim>\<open>1.2.3.4\<close>, without the scheme and the port.
\<close>

theorem readDockerHost_unset_and_tcp:
  "(env ''DOCKER_HOST'' = None \<longrightarrow>
      readDockerHost URL_new env = Inl (Error ''DOCKER_HOST environment variable not set'') \<and>
      prefix ''DOCKER_HOST'' (message (Error ''DOCKER_HOST environment variable not set''))) \<and>
   (env ''DOCKER_HOST'' = Some ''tcp://1.2.3.4:2376'' \<longrightarrow>
      readDockerHost URL_new env = Inr (Some ''1.2.3.4''))"
  by (simp add: readDockerHost_def URL_new_tcp)

theorem readDockerHost_unset_and_tcp_witness:
  "Map.empty ''DOCKER_HOST'' = (None :: string option) \<and>
   readDockerHost URL_new Map.empty =
     Inl (Error ''DOCKER_HOST environment variable not set'') \<and>
   [''DOCKER_HOST'' \<mapsto> ''tcp://1.2.3.4:2376''] ''DOCKER_HOST'' = Some ''tcp://1.2.3.4:2376'' \<and>
   readDockerHost URL_new [''DOCKER_HOST'' \<mapsto> ''tcp://1.2.3.4:2376''] = Inr (Some ''1.2.3.4'')"
  using readDockerHost_unset_and_tcp [of Map.empty]
    readDockerHost_unset_and_tcp [of "[''DOCKER_HOST'' \<mapsto> ''tcp://1.2.3.4:2376'']"]
  by simp

text \<open>
  C10: whatever the \<^verbatim>\<open>URL\<close> constructor does, a call of \<^verbatim>\<open>readDockerHost\<close> that
  returns, returns a string and never \<^verbatim>\<open>undefined\<close>.
\<close>

theorem readDockerHost_defined:
  "readDockerHost newURL env = Inr v \<Longrightarrow> \<exists>s. v = Some s"
  by (auto simp: readDockerHost_def split: option.splits if_splits sum.splits)

theorem readDockerHost_defined_witness:
  "readDockerHost URL_new [''DOCKER_HOST'' \<mapsto> ''tcp://1.2.3.4:2376''] = Inr (Some ''1.2.3.4'') \<and>
   (\<exists>s. Some ''1.2.3.4'' = Some s)"
proof -
  have r: "readDockerHost URL_new [''DOCKER_HOST'' \<mapsto> ''tcp://1.2.3.4:2376''] =
      Inr (Some ''1.2.3.4'')"
    by (simp add: readDockerHost_def URL_new_tcp)
  show ?thesis
    using r readDockerHost_defined [OF r] by simp
qed

subsection \<open>The port allocator\<close>

lemma allocate_scan:
  "allocate low high bound = (Inr p, bound') \<Longrightarrow>
     low \<le> p \<and> p \<le> high \<and> p \<notin> bound \<and> (\<forall>q. low \<le> q \<and> q < p \<longrightarrow> q \<in> bound) \<and>
     bound' = bound"
proof (induction low high bound rule: allocate.induct)
  case (1 low high bound)
  show ?case
  proof (cases "high < low")
    case True
    with "1.prems" show ?thesis
      by (simp add: allocate.simps)
  next
    case nlt: False
    show ?thesis
    proof (cases "low \<in> bound")
      case True
      then have b: "bind_port low bound = None"
        by (simp add: bind_port_def)
      with nlt "1.prems" have "allocate (Suc low) high bound = (Inr p, bound')"
        by (simp add: allocate.simps [of low])
      from "1.IH" [OF nlt b this]
      have ih: "Suc low \<le> p" "p \<le> high" "p \<notin> bound"
        "\<forall>q. Suc low \<le> q \<and> q < p \<longrightarrow> q \<in> bound" "bound' = bound"
        by simp_all
      have "q \<in> bound" if "low \<le> q" "q < p" for q
      proof (cases "q = low")
        case True
        with \<open>low \<in> bound\<close> show ?thesis
          by simp
      next
        case False
        with that have "Suc low \<le> q"
          by simp
        with ih(4) that show ?thesis
          by simp
      qed
      with ih show ?thesis
        by simp
    next
      case False
      with nlt "1.prems" show ?thesis
        by (auto simp: allocate.simps [of low] bind_port_def release_def)
    qed
  qed
qed

text \<open>The scan does return a port whenever some port of the range is free.\<close>

lemma allocate_succeeds:
  "\<exists>q. low \<le> q \<and> q \<le> high \<and> q \<notin> bound \<Longrightarrow> \<exists>p. allocate low high bound = (Inr p, bound)"
proof (induction low high bound rule: allocate.induct)
  case (1 low high bound)
  from "1.prems" have nlt: "\<not> high < low"
    by auto
  show ?case
  proof (cases "low \<in> bound")
    case True
    then have b: "bind_port low bound = None"
      by (simp add: bind_port_def)
    from "1.prems" True have "\<exists>q. Suc low \<le> q \<and> q \<le> high \<and> q \<notin> bound"
      by (metis Suc_leI le_neq_implies_less)
    from "1.IH" [OF nlt b this] nlt b show ?thesis
      by (simp add: allocate.simps [of low])
  next
    case False
    with nlt show ?thesis
      by (auto simp: allocate.simps [of low] bind_port_def release_def)
  qed
qed

text \<open>
  C7: a call of the allocator over 8000 to 8100 that succeeds returns a port \<open>p\<close> of
  that range which was free while every candidate below it was bound (the first port
  of the scan from low to high that can be bound); the set of bound ports is as
  before the call, so the bind has been released and a bind of \<open>p\<close> succeeds.
\<close>

theorem allocate_8000_8100:
  "allocate 8000 8100 bound = (Inr p, bound') \<Longrightarrow>
     8000 \<le> p \<and> p \<le> 8100 \<and> p \<notin> bound \<and> (\<forall>q. 8000 \<le> q \<and> q < p \<longrightarrow> q \<in> bound) \<and>
     bound' = bound \<and> bind_port p bound' = Some (insert p bound)"
  by (frule allocate_scan) (simp add: bind_port_def)

theorem allocate_8000_8100_witness:
  "allocate 8000 8100 {8000, 8001, 9000} = (Inr 8002, {8000, 8001, 9000}) \<and>
   (8000::nat) \<le> 8002 \<and> (8002::nat) \<le> 8100 \<and> (8002::nat) \<notin> {8000, 8001, 9000} \<and>
   bind_port 8002 {8000, 8001, 9000} = Some (insert 8002 {8000, 8001, 9000})"
proof -
  have a: "allocate 8000 8100 {8000, 8001, 9000} = (Inr 8002, {8000, 8001, 9000})"
    by (simp add: allocate.simps bind_port_def release_def)
  show ?thesis
    using a allocate_8000_8100 [OF a] by simp
qed

subsection \<open>The push rules\<close>

text \<open>
  C8: the test of the rule \<^verbatim>\<open>no_goals\<close> is \<^verbatim>\<open>not(hasFile("pom.xml"))\<close>, and for every
  snapshot its value, a total function of the snapshot alone, is true iff no file
  named exactly \<^verbatim>\<open>pom.xml\<close> is in the snapshot.
\<close>

theorem no_goals_test_iff:
  "test no_goals = Some (Not (HasFile ''pom.xml'')) \<and>
   evaluate (Not (HasFile ''pom.xml'')) snapshot = (''pom.xml'' \<notin> set snapshot) \<and>
   matches no_goals snapshot = (''pom.xml'' \<notin> set snapshot)"
  by (simp add: no_goals_def matches_def)

theorem no_goals_test_iff_witness:
  "evaluate (Not (HasFile ''pom.xml'')) [''README.md'', ''module/pom.xml''] \<and>
   \<not> evaluate (Not (HasFile ''pom.xml'')) [''README.md'', ''pom.xml'']"
  using no_goals_test_iff [of "[''README.md'', ''module/pom.xml'']"]
    no_goals_test_iff [of "[''README.md'', ''pom.xml'']"]
  by simp

lemma resolve_without_pom:
  "''pom.xml'' \<notin> set (files push) \<Longrightarrow>
     resolve (configuration mavenBuilder MvnVersion runAction) push = [no_goals]"
  by (simp add: resolve_def configuration_def matches_def no_goals_def ordered.simps ready_def)

lemma resolve_with_pom:
  "''pom.xml'' \<in> set (files push) \<Longrightarrow>
     resolve (configuration mavenBuilder MvnVersion runAction) push =
       [build mavenBuilder MvnVersion, run runAction]"
  by (simp add: resolve_def configuration_def matches_def no_goals_def build_def run_def
      ordered.simps ready_def)

lemma execute_no_goals:
  "execute [no_goals] (start w) =
     \<lparr>world = w, trace = [], scheduled = [''no_goals''], results = [(''no_goals'', success)]\<rparr>"
  by (simp add: no_goals_def start_def dependencyMet_def)

lemma execute_build_run:
  "execute [build mavenBuilder MvnVersion, run runAction] (start w) =
     (case mavenBuilder (MvnVersion w) of
        (failure, w1) \<Rightarrow>
          \<lparr>world = w1, trace = [ListenerInvoked ''maven build'', ActionInvoked ''maven build''],
           scheduled = [''build''], results = [(''build'', failure)]\<rparr>
      | (success, w1) \<Rightarrow>
          (case runAction w1 of
             (s, w2) \<Rightarrow>
               \<lparr>world = w2,
                trace = [ListenerInvoked ''maven build'', ActionInvoked ''maven build'',
                         ActionInvoked ''maven spring boot run''],
                scheduled = [''build'', ''run''],
                results = [(''build'', success), (''run'', s)]\<rparr>))"
proof (cases "mavenBuilder (MvnVersion w)")
  case (Pair s w1)
  show ?thesis
  proof (cases s)
    case success
    obtain s2 w2 where r: "runAction w1 = (s2, w2)"
      by (cases "runAction w1")
    with Pair success show ?thesis
      by (cases s2)
        (simp_all add: build_def run_def buildGoal_def runGoal_def start_def dependencyMet_def
          executeGoal_def)
  next
    case failure
    with Pair show ?thesis
      by (simp add: build_def run_def buildGoal_def runGoal_def start_def dependencyMet_def
          executeGoal_def)
  qed
qed

text \<open>
  C2: for every push whose snapshot has no file named exactly \<^verbatim>\<open>pom.xml\<close>, the rules
  resolve to the one rule \<^verbatim>\<open>no_goals\<close>, whose goal set is empty and locked; executing
  the resolved rules invokes nothing and begins neither the goal set of \<^verbatim>\<open>build\<close> nor
  that of \<^verbatim>\<open>run\<close>.
\<close>

theorem no_pom_resolves_locked_empty:
  assumes "''pom.xml'' \<notin> set (files push)"
    and "x = execute (resolve (configuration mavenBuilder MvnVersion runAction) push) (start w)"
  shows "map name (resolve (configuration mavenBuilder MvnVersion runAction) push) = [''no_goals''] \<and>
         map goals (resolve (configuration mavenBuilder MvnVersion runAction) push) = [[]] \<and>
         map lock (resolve (configuration mavenBuilder MvnVersion runAction) push) = [True] \<and>
         trace x = [] \<and> scheduled x = [''no_goals''] \<and>
         ''build'' \<notin> set (scheduled x) \<and> ''run'' \<notin> set (scheduled x) \<and> world x = w"
proof -
  from assms(1)
  have r: "resolve (configuration mavenBuilder MvnVersion runAction) push = [no_goals]"
    by (rule resolve_without_pom)
  with assms(2) have x: "x = \<lparr>world = w, trace = [], scheduled = [''no_goals''],
      results = [(''no_goals'', success)]\<rparr>"
    by (simp only: execute_no_goals)
  show ?thesis
    unfolding r x by (simp add: no_goals_def)
qed

theorem no_pom_resolves_locked_empty_witness:
  "''pom.xml'' \<notin> set (files docsPush) \<and>
   map name (resolve (configuration packageOk setVersion bootRun) docsPush) = [''no_goals''] \<and>
   trace (execute (resolve (configuration packageOk setVersion bootRun) docsPush) (start [])) = [] \<and>
   world (execute (resolve (configuration packageOk setVersion bootRun) docsPush) (start [])) = []"
proof -
  have h: "''pom.xml'' \<notin> set (files docsPush)"
    by (simp add: docsPush_def)
  show ?thesis
    using h no_pom_resolves_locked_empty [OF h refl, of packageOk setVersion bootRun "[]"]
    by simp
qed

text \<open>
  C3: for every push in whose execution the goal set of the rule \<^verbatim>\<open>build\<close> ends in
  failure, the action of the run goal is invoked zero times, the goal set of \<^verbatim>\<open>run\<close>
  is never begun and has no result, and the world is as the build left it.
\<close>

theorem build_failure_skips_run:
  assumes "x = execute (resolve (configuration mavenBuilder MvnVersion runAction) push) (start w)"
    and "map_of (results x) ''build'' = Some failure"
  shows "count_list (trace x) (ActionInvoked ''maven spring boot run'') = 0 \<and>
         ''run'' \<notin> set (scheduled x) \<and>
         map_of (results x) ''run'' = None \<and>
         world x = snd (mavenBuilder (MvnVersion w))"
proof (cases "''pom.xml'' \<in> set (files push)")
  case False
  then have "resolve (configuration mavenBuilder MvnVersion runAction) push = [no_goals]"
    by (rule resolve_without_pom)
  with assms(1) have "x = \<lparr>world = w, trace = [], scheduled = [''no_goals''],
      results = [(''no_goals'', success)]\<rparr>"
    by (simp only: execute_no_goals)
  with assms(2) show ?thesis
    by simp
next
  case True
  then have "resolve (configuration mavenBuilder MvnVersion runAction) push =
      [build mavenBuilder MvnVersion, run runAction]"
    by (rule resolve_with_pom)
  with assms(1) have x: "x = execute [build mavenBuilder MvnVersion, run runAction] (start w)"
    by simp
  obtain s w1 where b: "mavenBuilder (MvnVersion w) = (s, w1)"
    by (cases "mavenBuilder (MvnVersion w)")
  show ?thesis
  proof (cases s)
    case success
    obtain s2 w2 where "runAction w1 = (s2, w2)"
      by (cases "runAction w1")
    with x b success have "results x = [(''build'', success), (''run'', s2)]"
      by (simp only: execute_build_run) simp
    with assms(2) show ?thesis
      by simp
  next
    case failure
    with x b have "x = \<lparr>world = w1,
        trace = [ListenerInvoked ''maven build'', ActionInvoked ''maven build''],
        scheduled = [''build''], results = [(''build'', failure)]\<rparr>"
      by (simp only: execute_build_run) simp
    with b show ?thesis
      by simp
  qed
qed

theorem build_failure_skips_run_witness:
  "map_of (results (execute (resolve (configuration packageBroken setVersion bootRun) mavenPush)
      (start []))) ''build'' = Some failure \<and>
   trace (execute (resolve (configuration packageBroken setVersion bootRun) mavenPush) (start [])) =
     [ListenerInvoked ''maven build'', ActionInvoked ''maven build''] \<and>
   count_list (trace (execute (resolve (configuration packageBroken setVersion bootRun) mavenPush)
      (start []))) (ActionInvoked ''maven spring boot run'') = 0 \<and>
   world (execute (resolve (configuration packageBroken setVersion bootRun) mavenPush) (start [])) =
     [''mvn versions:set'', ''mvn package'']"
proof -
  have p: "''pom.xml'' \<in> set (files mavenPush)"
    by (simp add: mavenPush_def)
  have x: "execute (resolve (configuration packageBroken setVersion bootRun) mavenPush) (start []) =
     \<lparr>world = [''mvn versions:set'', ''mvn package''],
      trace = [ListenerInvoked ''maven build'', ActionInvoked ''maven build''],
      scheduled = [''build''], results = [(''build'', failure)]\<rparr>"
    by (simp only: resolve_with_pom [OF p] execute_build_run)
      (simp add: packageBroken_def setVersion_def)
  have f: "map_of (results (execute (resolve (configuration packageBroken setVersion bootRun)
      mavenPush) (start []))) ''build'' = Some failure"
    by (simp add: x)
  show ?thesis
    using f build_failure_skips_run [OF refl f] by (simp add: x)
qed

text \<open>
  C6: for every push whose snapshot contains \<^verbatim>\<open>pom.xml\<close>, the rules resolve to
  \<^verbatim>\<open>build\<close> followed by \<^verbatim>\<open>run\<close>, which depends on \<^verbatim>\<open>build\<close>; the execution
  invokes the version listener of the build goal first and the build goal's action
  next, and the action of the run goal follows exactly when the goal set of \<^verbatim>\<open>build\<close>
  has the result \<open>success\<close>.
\<close>

theorem pom_order_version_build_run:
  assumes "''pom.xml'' \<in> set (files push)"
    and "x = execute (resolve (configuration mavenBuilder MvnVersion runAction) push) (start w)"
  shows "map name (resolve (configuration mavenBuilder MvnVersion runAction) push) = [''build'', ''run''] \<and>
         map dependsOn (resolve (configuration mavenBuilder MvnVersion runAction) push) =
           [None, Some ''build''] \<and>
         trace x = [ListenerInvoked ''maven build'', ActionInvoked ''maven build''] @
           (if map_of (results x) ''build'' = Some success
            then [ActionInvoked ''maven spring boot run''] else []) \<and>
         (''run'' \<in> set (scheduled x)) = (map_of (results x) ''build'' = Some success) \<and>
         map_of (results x) ''build'' = Some (fst (mavenBuilder (MvnVersion w)))"
proof -
  obtain s w1 where b: "mavenBuilder (MvnVersion w) = (s, w1)"
    by (cases "mavenBuilder (MvnVersion w)")
  obtain s2 w2 where r: "runAction w1 = (s2, w2)"
    by (cases "runAction w1")
  have names: "map name (resolve (configuration mavenBuilder MvnVersion runAction) push) = [''build'', ''run''] \<and>
         map dependsOn (resolve (configuration mavenBuilder MvnVersion runAction) push) =
           [None, Some ''build'']"
    using assms(1) by (simp add: resolve_with_pom build_def run_def)
  have "trace x = [ListenerInvoked ''maven build'', ActionInvoked ''maven build''] @
           (if map_of (results x) ''build'' = Some success
            then [ActionInvoked ''maven spring boot run''] else []) \<and>
         (''run'' \<in> set (scheduled x)) = (map_of (results x) ''build'' = Some success) \<and>
         map_of (results x) ''build'' = Some (fst (mavenBuilder (MvnVersion w)))"
  proof -
    from assms have x: "x = execute [build mavenBuilder MvnVersion, run runAction] (start w)"
      by (simp only: resolve_with_pom)
    show ?thesis
    proof (cases s)
      case success
      with x b r have "x = \<lparr>world = w2,
          trace = [ListenerInvoked ''maven build'', ActionInvoked ''maven build'',
                   ActionInvoked ''maven spring boot run''],
          scheduled = [''build'', ''run''],
          results = [(''build'', success), (''run'', s2)]\<rparr>"
        by (simp only: execute_build_run) simp
      with b success show ?thesis
        by simp
    next
      case failure
      with x b have "x = \<lparr>world = w1,
          trace = [ListenerInvoked ''maven build'', ActionInvoked ''maven build''],
          scheduled = [''build''], results = [(''build'', failure)]\<rparr>"
        by (simp only: execute_build_run) simp
      with b failure show ?thesis
        by simp
    qed
  qed
  with names show ?thesis
    by simp
qed

theorem pom_order_version_build_run_witness:
  "''pom.xml'' \<in> set (files mavenPush) \<and>
   map name (resolve (configuration packageOk setVersion bootRun) mavenPush) = [''build'', ''run''] \<and>
   trace (execute (resolve (configuration packageOk setVersion bootRun) mavenPush) (start [])) =
     [ListenerInvoked ''maven build'', ActionInvoked ''maven build'',
      ActionInvoked ''maven spring boot run''] \<and>
   world (execute (resolve (configuration packageOk setVersion bootRun) mavenPush) (start [])) =
     [''mvn versions:set'', ''mvn package'', ''mvn spring-boot:run'']"
proof -
  have p: "''pom.xml'' \<in> set (files mavenPush)"
    by (simp add: mavenPush_def)
  have x: "execute (resolve (configuration packageOk setVersion bootRun) mavenPush) (start []) =
     \<lparr>world = [''mvn versions:set'', ''mvn package'', ''mvn spring-boot:run''],
      trace = [ListenerInvoked ''maven build'', ActionInvoked ''maven build'',
               ActionInvoked ''maven spring boot run''],
      scheduled = [''build'', ''run''], results = [(''build'', success), (''run'', success)]\<rparr>"
    by (simp only: resolve_with_pom [OF p] execute_build_run)
      (simp add: packageOk_def setVersion_def bootRun_def)
  show ?thesis
    using p pom_order_version_build_run [OF p refl, of packageOk setVersion bootRun "[]"]
    by (simp add: x)
qed

end
